theory Spec2Isabelle
  imports Complex_Main
begin

section \<open>Python strings and floats, as the parsers use them\<close>

text \<open>
  The participants parse the oracle's reply with \<^verbatim>\<open>str\<close> methods and the builtin
  \<^verbatim>\<open>float\<close>. Strings are modelled as lists of ASCII characters. A float is either a
  finite value, an infinity or NaN; \<open>Fin r\<close> stands for the binary64 value nearest to
  \<open>r\<close>. Rounding to nearest is monotone and 0, 1 and 100 are exact, so every
  comparison with these bounds made below agrees with the one Python makes.
\<close>

datatype pyfloat = Fin real | PInf | NInf | NaN

text \<open>Python's \<^verbatim>\<open>a < b\<close> on floats: every comparison with NaN is false.\<close>

fun pf_less :: "pyfloat \<Rightarrow> pyfloat \<Rightarrow> bool" where
  "pf_less NaN b = False"
| "pf_less a NaN = False"
| "pf_less (Fin a) (Fin b) = (a < b)"
| "pf_less (Fin a) PInf = True"
| "pf_less (Fin a) NInf = False"
| "pf_less PInf b = False"
| "pf_less NInf NInf = False"
| "pf_less NInf b = True"

text \<open>
  \<^verbatim>\<open>max(a, b)\<close> keeps \<open>a\<close> unless \<open>b > a\<close>; \<^verbatim>\<open>min(a, b)\<close> keeps \<open>a\<close> unless
  \<open>b < a\<close>.
\<close>

definition py_max :: "pyfloat \<Rightarrow> pyfloat \<Rightarrow> pyfloat" where
  "py_max a b = (if pf_less a b then b else a)"

definition py_min :: "pyfloat \<Rightarrow> pyfloat \<Rightarrow> pyfloat" where
  "py_min a b = (if pf_less b a then b else a)"

text \<open>The characters \<^verbatim>\<open>str.isspace\<close> accepts in ASCII: codes 9 to 13, 28 to 31 and 32.\<close>

definition is_space :: "char \<Rightarrow> bool" where
  "is_space c = (let n = (of_char c :: nat) in (9 \<le> n \<and> n \<le> 13) \<or> (28 \<le> n \<and> n \<le> 32))"

definition startswith :: "string \<Rightarrow> string \<Rightarrow> bool" where
  "startswith p s = (take (length p) s = p)"

text \<open>\<^verbatim>\<open>sub in s\<close>.\<close>

fun contains :: "string \<Rightarrow> string \<Rightarrow> bool" where
  "contains sub [] = (sub = [])"
| "contains sub (x # xs) = (startswith sub (x # xs) \<or> contains sub xs)"

text \<open>\<^verbatim>\<open>s.split(c)\<close> for a one-character separator: never the empty list.\<close>

fun split_on :: "char \<Rightarrow> string \<Rightarrow> string list" where
  "split_on c [] = [[]]"
| "split_on c (x # xs) =
     (if x = c then [] # split_on c xs
      else (case split_on c xs of [] \<Rightarrow> [[x]] | l # ls \<Rightarrow> (x # l) # ls))"

text \<open>\<^verbatim>\<open>s.strip(chars)\<close> and \<^verbatim>\<open>s.strip()\<close>.\<close>

definition strip_by :: "(char \<Rightarrow> bool) \<Rightarrow> string \<Rightarrow> string" where
  "strip_by p s = rev (dropWhile p (rev (dropWhile p s)))"

definition strip :: "string \<Rightarrow> string" where
  "strip s = strip_by is_space s"

definition strip_chars :: "string \<Rightarrow> string \<Rightarrow> string" where
  "strip_chars cs s = strip_by (\<lambda>c. c \<in> set cs) s"

text \<open>
  \<^verbatim>\<open>s.split()[0]\<close>: the first whitespace-delimited token; \<open>None\<close> is the IndexError
  of a string with no token.
\<close>

definition first_token :: "string \<Rightarrow> string option" where
  "first_token s =
     (let t = dropWhile is_space s in if t = [] then None else Some (takeWhile (\<lambda>c. \<not> is_space c) t))"

text \<open>\<^verbatim>\<open>s.split(c)[1]\<close>: \<open>None\<close> is the IndexError of a string without \<open>c\<close>.\<close>

definition second_field :: "char \<Rightarrow> string \<Rightarrow> string option" where
  "second_field c s = (case split_on c s of _ # f # _ \<Rightarrow> Some f | _ \<Rightarrow> None)"

text \<open>\<^verbatim>\<open>s.split(c, 1)[1]\<close>: all that follows the first \<open>c\<close>.\<close>

definition after_first :: "char \<Rightarrow> string \<Rightarrow> string option" where
  "after_first c s = (case dropWhile (\<lambda>x. x \<noteq> c) s of [] \<Rightarrow> None | _ # r \<Rightarrow> Some r)"

text \<open>\<^verbatim>\<open>s.replace(old, "")\<close> for a non-empty \<open>old\<close>: occurrences are removed left to right.\<close>

function remove_all :: "string \<Rightarrow> string \<Rightarrow> string" where
  "remove_all old [] = []"
| "remove_all old (x # xs) =
     (if old \<noteq> [] \<and> startswith old (x # xs)
      then remove_all old (drop (length old) (x # xs))
      else x # remove_all old xs)"
  by pat_completeness auto
termination
  by (relation "measure (\<lambda>(old, s). length s)") (auto simp: neq_Nil_conv)

definition upper_char :: "char \<Rightarrow> char" where
  "upper_char c =
     (let n = (of_char c :: nat) in if 97 \<le> n \<and> n \<le> 122 then char_of (n - 32) else c)"

definition upper :: "string \<Rightarrow> string" where
  "upper s = map upper_char s"

subsection \<open>The builtin float\<close>

text \<open>
  \<^verbatim>\<open>float(s)\<close> on ASCII text, after Python's grammar: surrounding whitespace is
  dropped, then an optional sign, then \<^verbatim>\<open>inf\<close>, \<^verbatim>\<open>infinity\<close> or \<^verbatim>\<open>nan\<close> in any case, or
  a decimal number with an optional fraction and exponent, whose digit groups may be
  separated by single underscores. \<open>None\<close> is the ValueError.
\<close>

definition is_digit :: "char \<Rightarrow> bool" where
  "is_digit c = (let n = (of_char c :: nat) in 48 \<le> n \<and> n \<le> 57)"

fun digitpart :: "string \<Rightarrow> bool" where
  "digitpart [] = False"
| "digitpart [c] = is_digit c"
| "digitpart (c # d # cs) =
     (is_digit c \<and> (if d = CHR ''_'' then digitpart cs else digitpart (d # cs)))"

definition digits_value :: "string \<Rightarrow> nat" where
  "digits_value s = foldl (\<lambda>n c. 10 * n + (of_char c - 48)) 0 (filter is_digit s)"

definition float_exponent :: "string \<Rightarrow> int option" where
  "float_exponent e =
     (case e of
        [] \<Rightarrow> Some 0
      | _ # x \<Rightarrow>
          (let neg = startswith ''-'' x;
               ds = (if startswith ''-'' x \<or> startswith ''+'' x then tl x else x)
           in if digitpart ds
              then Some (if neg then - int (digits_value ds) else int (digits_value ds))
              else None))"

definition float_mantissa :: "string \<Rightarrow> (nat \<times> nat) option" where
  "float_mantissa m =
     (let ip = takeWhile (\<lambda>c. c \<noteq> CHR ''.'') m;
          fr = dropWhile (\<lambda>c. c \<noteq> CHR ''.'') m
      in if fr = [] then (if digitpart ip then Some (digits_value ip, 0) else None)
         else (let fp = tl fr in
               if (digitpart fp \<and> (ip = [] \<or> digitpart ip)) \<or> (fp = [] \<and> digitpart ip)
               then Some (digits_value (ip @ fp), length (filter is_digit fp))
               else None))"

definition float_number :: "string \<Rightarrow> real option" where
  "float_number s =
     (let m = takeWhile (\<lambda>c. c \<noteq> CHR ''e'' \<and> c \<noteq> CHR ''E'') s;
          e = dropWhile (\<lambda>c. c \<noteq> CHR ''e'' \<and> c \<noteq> CHR ''E'') s
      in case float_mantissa m of
           None \<Rightarrow> None
         | Some (d, k) \<Rightarrow>
             (case float_exponent e of
                None \<Rightarrow> None
              | Some x \<Rightarrow>
                  Some (if 0 \<le> x then real d / 10 ^ k * 10 ^ nat x
                        else real d / 10 ^ k / 10 ^ nat (- x))))"

definition py_float :: "string \<Rightarrow> pyfloat option" where
  "py_float s =
     (let t = strip s;
          neg = startswith ''-'' t;
          b = (if startswith ''-'' t \<or> startswith ''+'' t then tl t else t)
      in if upper b = ''NAN'' then Some NaN
         else if upper b = ''INF'' \<or> upper b = ''INFINITY''
         then Some (if neg then NInf else PInf)
         else (case float_number b of
                 None \<Rightarrow> None
               | Some r \<Rightarrow> Some (Fin (if neg then - r else r))))"

definition newline :: char where
  "newline = CHR 0x0A"

section \<open>The data model (graph/state.py)\<close>

text \<open>
  The dataclasses and the state dictionary. Speakers and argument authors are the string
  literals of the source. The creation timestamps read the clock and are left out. The
  arbiter's transcript entry is an f-string over the verdict's fields; it is kept as
  \<open>Transcript v\<close>, the text rendered from \<open>v\<close>, and every other content is the
  oracle's reply verbatim.
\<close>

datatype speaker = Research | Bull | Bear | Moderator | Judge | End

record verdict =
  recommendation :: string
  verdict_confidence :: pyfloat
  summary :: string
  bull_score :: pyfloat
  bear_score :: pyfloat
  key_factors :: "string list"
  risks :: "string list"

datatype content = Reply string | Transcript verdict

record argument =
  agent :: speaker
  content :: content
  evidence :: "string list"
  confidence :: pyfloat

record fact_check =
  agent_checked :: speaker
  accuracy_score :: pyfloat
  feedback :: string

text \<open>
  A row is a dictionary from column names to the values the provider returned: NULL,
  a text or a number (an int, a float or a Decimal in the source).
\<close>

datatype pyval = PNone | PStr string | PNum real

type_synonym row = "(string \<times> pyval) list"

record research_data =
  rd_ticker :: string
  company_name :: pyval
  metrics :: row
  earnings_history :: "row list"
  technical_indicators :: row
  sentiment :: row
  insider_activity :: "row list"
  institutional_holdings :: "row list"
  analyst_reports :: "row list"
  earnings_transcripts :: "row list"
  sec_filings :: "row list"

record debate_state =
  ticker :: string
  question :: string
  research_data :: "research_data option"
  current_round :: int
  max_rounds :: int
  current_speaker :: speaker
  arguments :: "argument list"
  fact_checks :: "fact_check list"
  verdict :: "verdict option"
  errors :: "string list"
  analyst_log :: "string list"
  search_log :: "string list"

definition add_arguments :: "argument list \<Rightarrow> argument list \<Rightarrow> argument list" where
  "add_arguments left right = left @ right"

definition create_initial_state :: "string \<Rightarrow> string option \<Rightarrow> int \<Rightarrow> debate_state" where
  "create_initial_state tick quest rounds =
     \<lparr>ticker = upper tick,
      question = (case quest of
                    None \<Rightarrow> ''Should we buy or sell '' @ upper tick @ ''?''
                  | Some q \<Rightarrow> if q = [] then ''Should we buy or sell '' @ upper tick @ ''?'' else q),
      research_data = None,
      current_round = 0,
      max_rounds = rounds,
      current_speaker = Research,
      arguments = [],
      fact_checks = [],
      verdict = None,
      errors = [],
      analyst_log = [],
      search_log = []\<rparr>"

text \<open>
  What a node returns: a dictionary holding some of the state's keys. A key that is
  absent is \<open>None\<close>.
\<close>

record update =
  u_research_data :: "research_data option"
  u_current_round :: "int option"
  u_current_speaker :: "speaker option"
  u_arguments :: "argument list option"
  u_fact_checks :: "fact_check list option"
  u_verdict :: "verdict option"
  u_errors :: "string list option"
  u_analyst_log :: "string list option"
  u_search_log :: "string list option"

definition empty_update :: update where
  "empty_update =
     \<lparr>u_research_data = None, u_current_round = None, u_current_speaker = None,
      u_arguments = None, u_fact_checks = None, u_verdict = None, u_errors = None,
      u_analyst_log = None, u_search_log = None\<rparr>"

text \<open>
  Merging a node's output into the state, as the loop of \<^verbatim>\<open>run_debate\<close> does and as the
  graph does with the one reducer \<^verbatim>\<open>DebateState\<close> declares: \<^verbatim>\<open>arguments\<close> is extended
  with \<^verbatim>\<open>add_arguments\<close>, every other key present in the output replaces the state's
  value.
\<close>

definition apply_update :: "debate_state \<Rightarrow> update \<Rightarrow> debate_state" where
  "apply_update s u =
     s\<lparr>research_data := (case u_research_data u of None \<Rightarrow> research_data s | Some r \<Rightarrow> Some r),
       current_round := (case u_current_round u of None \<Rightarrow> current_round s | Some r \<Rightarrow> r),
       current_speaker := (case u_current_speaker u of None \<Rightarrow> current_speaker s | Some x \<Rightarrow> x),
       arguments := (case u_arguments u of None \<Rightarrow> arguments s | Some a \<Rightarrow> add_arguments (arguments s) a),
       fact_checks := (case u_fact_checks u of None \<Rightarrow> fact_checks s | Some f \<Rightarrow> f),
       verdict := (case u_verdict u of None \<Rightarrow> verdict s | Some v \<Rightarrow> Some v),
       errors := (case u_errors u of None \<Rightarrow> errors s | Some e \<Rightarrow> e),
       analyst_log := (case u_analyst_log u of None \<Rightarrow> analyst_log s | Some l \<Rightarrow> l),
       search_log := (case u_search_log u of None \<Rightarrow> search_log s | Some l \<Rightarrow> l)\<rparr>"

section \<open>The participants (agents/)\<close>

text \<open>
  Each participant builds a prompt from the state, sends it to the oracle and parses
  the reply. The prompt reaches nothing but the oracle, and the oracle may answer any
  text, so the update a participant returns is a function of the state and of the
  replies it receives: \<open>bull_call\<close>, \<open>bear_call\<close>, \<open>moderator_call\<close> and
  \<open>judge_call\<close> below are the updates of turns that return. A turn does not return
  when building its prompt raises, which \<open>format_research_context_error\<close> decides
  from the state, or when its oracle call raises; the replies of the oracle are inputs
  of this model, so a run is followed here as long as the oracle answers.
\<close>

subsection \<open>Rendering the evidence bundle (base.py)\<close>

text \<open>
  Every participant first renders the bundle with \<^verbatim>\<open>format_research_context\<close>. Most
  values are formatted as they are, which never fails. Three are not: the earnings
  surprise is formatted with \<^verbatim>\<open>+.1f\<close> and the traded shares with a thousands separator,
  which raise ValueError on a text and TypeError on NULL, and a report content that is
  not falsy is sliced, which raises TypeError on a number. Only the first three rows of
  a list are rendered. The text itself goes to the oracle only; what is kept here is
  the exception, if any, in the order the source would meet it.
\<close>

datatype py_error = ValueError | TypeError

text \<open>\<^verbatim>\<open>d.get(k, dflt)\<close>.\<close>

definition dict_get :: "row \<Rightarrow> string \<Rightarrow> pyval \<Rightarrow> pyval" where
  "dict_get d k dflt = (case map_of d k of None \<Rightarrow> dflt | Some v \<Rightarrow> v)"

definition numeric_format_error :: "pyval \<Rightarrow> py_error option" where
  "numeric_format_error v =
     (case v of PNum r \<Rightarrow> None | PStr s \<Rightarrow> Some ValueError | PNone \<Rightarrow> Some TypeError)"

definition truthy :: "pyval \<Rightarrow> bool" where
  "truthy v = (case v of PNone \<Rightarrow> False | PStr s \<Rightarrow> s \<noteq> [] | PNum r \<Rightarrow> r \<noteq> 0)"

definition earnings_row_error :: "row \<Rightarrow> py_error option" where
  "earnings_row_error e = numeric_format_error (dict_get e ''EPS_SURPRISE_PCT'' (PNum 0))"

definition report_row_error :: "row \<Rightarrow> py_error option" where
  "report_row_error r =
     (if truthy (dict_get r ''REPORT_CONTENT'' PNone)
      then (case dict_get r ''REPORT_CONTENT'' PNone of PNum x \<Rightarrow> Some TypeError | _ \<Rightarrow> None)
      else None)"

definition insider_row_error :: "row \<Rightarrow> py_error option" where
  "insider_row_error i = numeric_format_error (dict_get i ''SHARES_TRADED'' (PStr ''N/A''))"

definition first_error :: "py_error option list \<Rightarrow> py_error option" where
  "first_error es = (case filter (\<lambda>e. e \<noteq> None) es of [] \<Rightarrow> None | e # _ \<Rightarrow> e)"

definition format_research_context_error :: "research_data option \<Rightarrow> py_error option" where
  "format_research_context_error research =
     (case research of
        None \<Rightarrow> None
      | Some d \<Rightarrow>
          first_error
            (map earnings_row_error (take 3 (earnings_history d)) @
             map report_row_error (take 3 (analyst_reports d)) @
             map insider_row_error (take 3 (insider_activity d))))"

subsection \<open>Advocates (bull\_agent.py, bear\_agent.py)\<close>

text \<open>The body of the parsing loop, which the two advocates share word for word.\<close>

definition argument_line :: "pyfloat \<times> string list \<Rightarrow> string \<Rightarrow> pyfloat \<times> string list" where
  "argument_line acc line =
     (case acc of (conf, evid) \<Rightarrow>
        if startswith ''CONFIDENCE:'' line then
          (case first_token (strip (remove_all ''CONFIDENCE:'' line)) of
             None \<Rightarrow> acc
           | Some tok \<Rightarrow> (case py_float tok of None \<Rightarrow> acc | Some c \<Rightarrow> (c, evid)))
        else if startswith ''EVIDENCE:'' line then
          (conf, evid @ [strip (remove_all ''EVIDENCE:'' line)])
        else acc)"

definition bull_generate_argument :: "string \<Rightarrow> argument" where
  "bull_generate_argument response =
     (case foldl argument_line (Fin (7 / 10), []) (split_on newline response) of
        (conf, evid) \<Rightarrow>
          \<lparr>agent = Bull, content = Reply response, evidence = evid,
           confidence = py_min (py_max conf (Fin 0)) (Fin 1)\<rparr>)"

definition bear_generate_argument :: "string \<Rightarrow> argument" where
  "bear_generate_argument response =
     (case foldl argument_line (Fin (7 / 10), []) (split_on newline response) of
        (conf, evid) \<Rightarrow>
          \<lparr>agent = Bear, content = Reply response, evidence = evid,
           confidence = py_min (py_max conf (Fin 0)) (Fin 1)\<rparr>)"

definition bull_call :: "debate_state \<Rightarrow> string \<Rightarrow> update" where
  "bull_call s response =
     empty_update\<lparr>u_arguments := Some [bull_generate_argument response],
                  u_current_speaker := Some Moderator\<rparr>"

definition bear_call :: "debate_state \<Rightarrow> string \<Rightarrow> update" where
  "bear_call s response =
     (let next_speaker = (if max_rounds s \<le> current_round s then Judge else Moderator)
      in empty_update\<lparr>u_arguments := Some [bear_generate_argument response],
                      u_current_speaker := Some next_speaker,
                      u_current_round := Some (current_round s + 1)\<rparr>)"

subsection \<open>Moderator (moderator.py)\<close>

text \<open>
  \<^verbatim>\<open>float(line.split(":")[1].strip().split()[0])\<close> inside \<^verbatim>\<open>try\<close>: \<open>None\<close> when any
  step raises.
\<close>

definition score_field :: "string \<Rightarrow> pyfloat option" where
  "score_field line =
     (case second_field (CHR '':'') line of
        None \<Rightarrow> None
      | Some f \<Rightarrow> (case first_token (strip f) of None \<Rightarrow> None | Some tok \<Rightarrow> py_float tok))"

definition accuracy_line :: "pyfloat \<Rightarrow> string \<Rightarrow> pyfloat" where
  "accuracy_line accuracy line =
     (if contains ''ACCURACY_SCORE:'' line
      then (case score_field line of None \<Rightarrow> accuracy | Some a \<Rightarrow> a)
      else accuracy)"

definition fact_check :: "argument \<Rightarrow> string \<Rightarrow> fact_check" where
  "fact_check argument_to_check response =
     \<lparr>agent_checked = agent argument_to_check,
      accuracy_score = foldl accuracy_line (Fin (7 / 10)) (split_on newline response),
      feedback = response\<rparr>"

definition moderator_generate_argument :: "debate_state \<Rightarrow> string \<Rightarrow> argument" where
  "moderator_generate_argument s response =
     \<lparr>agent = Moderator, content = Reply response, evidence = [], confidence = Fin (9 / 10)\<rparr>"

text \<open>\<^verbatim>\<open>xs[-2:]\<close>.\<close>

definition last_two :: "'a list \<Rightarrow> 'a list" where
  "last_two xs = drop (length xs - 2) xs"

text \<open>
  The moderator calls the oracle once for its summary and once more for each argument it
  checks: \<open>llm k\<close> is the reply to the \<open>k\<close>-th call of the turn.
\<close>

definition moderator_call :: "debate_state \<Rightarrow> (nat \<Rightarrow> string) \<Rightarrow> update" where
  "moderator_call s llm =
     (let arg = moderator_generate_argument s (llm 0);
          checked = filter (\<lambda>a. agent a = Bull \<or> agent a = Bear) (last_two (arguments s));
          checks = map (\<lambda>(k, a). fact_check a (llm (Suc k))) (enumerate 0 checked);
          next_speaker = (if max_rounds s \<le> current_round s then Judge else Bull)
      in empty_update\<lparr>u_arguments := Some [arg],
                      u_fact_checks := Some checks,
                      u_current_speaker := Some next_speaker\<rparr>)"

subsection \<open>Arbiter (judge.py)\<close>

definition find_recommendation :: "string \<Rightarrow> string option" where
  "find_recommendation rec_text =
     find (\<lambda>r. contains r rec_text) [''STRONG BUY'', ''STRONG SELL'', ''BUY'', ''SELL'', ''HOLD'']"

text \<open>
  The body of the verdict loop, over its local variables. A line holding
  \<^verbatim>\<open>RECOMMENDATION:\<close> in upper case holds a colon, so the split in that branch finds
  its second part.
\<close>

definition verdict_line :: "verdict \<Rightarrow> string \<Rightarrow> verdict" where
  "verdict_line v line =
     (let line_upper = upper line in
      if contains ''RECOMMENDATION:'' line_upper then
        (case after_first (CHR '':'') line of
           None \<Rightarrow> v
         | Some r \<Rightarrow>
             (case find_recommendation (upper (strip r)) of
                None \<Rightarrow> v
              | Some rc \<Rightarrow> v\<lparr>recommendation := rc\<rparr>))
      else if contains ''CONFIDENCE:'' line_upper then
        (case score_field line of None \<Rightarrow> v | Some c \<Rightarrow> v\<lparr>verdict_confidence := c\<rparr>)
      else if contains ''BULL_SCORE:'' line_upper then
        (case score_field line of None \<Rightarrow> v | Some c \<Rightarrow> v\<lparr>bull_score := c\<rparr>)
      else if contains ''BEAR_SCORE:'' line_upper then
        (case score_field line of None \<Rightarrow> v | Some c \<Rightarrow> v\<lparr>bear_score := c\<rparr>)
      else if contains ''SUMMARY:'' line_upper then
        (case after_first (CHR '':'') line of
           None \<Rightarrow> v
         | Some r \<Rightarrow> v\<lparr>summary := strip r\<rparr>)
      else if contains ''KEY_FACTORS:'' line_upper \<or> contains ''KEY FACTORS:'' line_upper then v
      else if startswith ''-'' (strip line) \<and> length (key_factors v) < 5 then
        v\<lparr>key_factors := key_factors v @ [strip_chars ''- '' line]\<rparr>
      else v)"

definition generate_verdict :: "string \<Rightarrow> verdict" where
  "generate_verdict response =
     (let v = foldl verdict_line
                \<lparr>recommendation = ''HOLD'', verdict_confidence = Fin (1 / 2),
                 summary = response, bull_score = Fin 50, bear_score = Fin 50,
                 key_factors = [], risks = []\<rparr>
                (split_on newline response);
          kf = (if key_factors v = [] then [''See detailed analysis in summary''] else key_factors v);
          rs = (if risks v = [] then [''Market volatility'', ''Execution risk''] else risks v)
      in \<lparr>recommendation = recommendation v,
          verdict_confidence = py_min (py_max (verdict_confidence v) (Fin 0)) (Fin 1),
          summary = summary v,
          bull_score = py_min (py_max (bull_score v) (Fin 0)) (Fin 100),
          bear_score = py_min (py_max (bear_score v) (Fin 0)) (Fin 100),
          key_factors = take 5 kf,
          risks = take 3 rs\<rparr>)"

definition judge_call :: "debate_state \<Rightarrow> string \<Rightarrow> update" where
  "judge_call s response =
     (let v = generate_verdict response;
          arg = \<lparr>agent = Judge, content = Transcript v, evidence = [],
                 confidence = verdict_confidence v\<rparr>
      in empty_update\<lparr>u_arguments := Some [arg],
                      u_verdict := Some v,
                      u_current_speaker := Some End\<rparr>)"

subsection \<open>Research stage (researcher.py)\<close>

text \<open>
  The research provider is outside the repository: nine accessors, each of which returns
  its rows or raises (\<open>Inl\<close> carries the exception's message), and the two query logs.
\<close>

record provider =
  get_metrics :: "string \<Rightarrow> string + row"
  get_earnings_history :: "string \<Rightarrow> string + row list"
  get_technical_indicators :: "string \<Rightarrow> string + row"
  get_sentiment :: "string \<Rightarrow> string + row"
  get_insider_activity :: "string \<Rightarrow> string + row list"
  get_institutional_holdings :: "string \<Rightarrow> string + row list"
  search_analyst_reports :: "string \<Rightarrow> string \<Rightarrow> string + row list"
  search_earnings_transcripts :: "string \<Rightarrow> string \<Rightarrow> string + row list"
  search_sec_filings :: "string \<Rightarrow> string \<Rightarrow> string + row list"
  analyst_query_log :: "string list"
  search_query_log :: "string list"

text \<open>
  One \<^verbatim>\<open>try: field = fetch(...) except Exception as e: print(...)\<close> block: the value
  the field holds afterwards (its default when the fetch raised) and the lines printed.
\<close>

definition attempt :: "string + 'a \<Rightarrow> 'a \<Rightarrow> string \<Rightarrow> 'a \<times> string list" where
  "attempt fetched dflt label =
     (case fetched of Inr v \<Rightarrow> (v, []) | Inl e \<Rightarrow> (dflt, [label @ e]))"

text \<open>
  \<^verbatim>\<open>gather_research\<close> returns the bundle; the second component is what it printed.
  \<open>Inl\<close> would be an exception leaving the method, which \<^verbatim>\<open>__call__\<close> handles.
\<close>

definition gather_research :: "provider \<Rightarrow> string \<Rightarrow> string + research_data \<times> string list" where
  "gather_research P tick =
     (let t = upper tick;
          (m, o1) = attempt (get_metrics P t) [] ''Error getting metrics: '';
          cn = (case get_metrics P t of
                  Inr mm \<Rightarrow> dict_get mm ''COMPANY_NAME'' (PStr t)
                | Inl e \<Rightarrow> PStr []);
          (eh, o2) = attempt (get_earnings_history P t) [] ''Error getting earnings history: '';
          (ti, o3) = attempt (get_technical_indicators P t) [] ''Error getting technical indicators: '';
          (se, o4) = attempt (get_sentiment P t) [] ''Error getting sentiment: '';
          (ia, o5) = attempt (get_insider_activity P t) [] ''Error getting insider activity: '';
          (ih, o6) = attempt (get_institutional_holdings P t) [] ''Error getting institutional holdings: '';
          (ar, o7) = attempt (search_analyst_reports P (t @ '' outlook growth risks'') t) []
                       ''Error searching analyst reports: '';
          (et, o8) = attempt (search_earnings_transcripts P (t @ '' guidance outlook'') t) []
                       ''Error searching earnings transcripts: '';
          (sf, o9) = attempt (search_sec_filings P (t @ '' material events'') t) []
                       ''Error searching SEC filings: ''
      in Inr (\<lparr>rd_ticker = t, company_name = cn, metrics = m, earnings_history = eh,
               technical_indicators = ti, sentiment = se, insider_activity = ia,
               institutional_holdings = ih, analyst_reports = ar,
               earnings_transcripts = et, sec_filings = sf\<rparr>,
              o1 @ o2 @ o3 @ o4 @ o5 @ o6 @ o7 @ o8 @ o9))"

definition researcher_call :: "provider \<Rightarrow> debate_state \<Rightarrow> update" where
  "researcher_call P s =
     (case gather_research P (ticker s) of
        Inr (research, printed) \<Rightarrow>
          empty_update\<lparr>u_research_data := Some research,
                       u_current_speaker := Some Bull,
                       u_analyst_log := Some (analyst_query_log P),
                       u_search_log := Some (search_query_log P)\<rparr>
      | Inl e \<Rightarrow>
          empty_update\<lparr>u_errors := Some [''Research error: '' @ e],
                       u_current_speaker := Some Bull,
                       u_analyst_log := Some (analyst_query_log P),
                       u_search_log := Some (search_query_log P)\<rparr>)"

section \<open>The graph (graph/workflow.py)\<close>

text \<open>
  The nodes of \<^verbatim>\<open>create_debate_graph\<close> and the graph's end marker. The routers return
  a node's name; the dictionary given with a conditional edge maps the names the router
  may return to nodes, and a name outside it is an error of the graph runtime. The
  fixed chain of \<^verbatim>\<open>create_simple_debate_graph\<close>, which routes nothing, is not part of
  this model.
\<close>

datatype node = NResearch | NBull | NBear | NModerator | NJudge | END

text \<open>
  How a run can abort: a participant's turn raises, a router names a branch its edge
  does not map, or the graph runtime gives up because its recursion limit is used up.
\<close>

datatype graph_error =
  Turn_failed node py_error
| Unmapped_branch node node
| Graph_recursion_error

definition route_next_speaker :: "debate_state \<Rightarrow> node" where
  "route_next_speaker s =
     (case current_speaker s of
        End \<Rightarrow> END
      | Bull \<Rightarrow> NBull
      | Bear \<Rightarrow> NBear
      | Moderator \<Rightarrow> NModerator
      | Judge \<Rightarrow> NJudge
      | Research \<Rightarrow> NBull)"

definition route_after_moderator :: "debate_state \<Rightarrow> node" where
  "route_after_moderator s =
     (if current_speaker s = Judge \<or> max_rounds s < current_round s then NJudge
      else if current_speaker s = Bull then NBull
      else NBear)"

definition advocate_edges :: "node \<rightharpoonup> node" where
  "advocate_edges = [NModerator \<mapsto> NModerator, NJudge \<mapsto> NJudge, END \<mapsto> END]"

definition moderator_edges :: "node \<rightharpoonup> node" where
  "moderator_edges = [NBull \<mapsto> NBull, NBear \<mapsto> NBear, NJudge \<mapsto> NJudge]"

definition conditional :: "node \<Rightarrow> (node \<rightharpoonup> node) \<Rightarrow> node \<Rightarrow> graph_error + node" where
  "conditional src path_map branch =
     (case path_map branch of None \<Rightarrow> Inl (Unmapped_branch src branch) | Some n \<Rightarrow> Inr n)"

text \<open>The edge taken out of a node, read on the state the node's output was merged into.\<close>

definition next_node :: "node \<Rightarrow> debate_state \<Rightarrow> graph_error + node" where
  "next_node n s =
     (case n of
        NResearch \<Rightarrow> Inr NBull
      | NBull \<Rightarrow> conditional NBull advocate_edges (route_next_speaker s)
      | NBear \<Rightarrow> conditional NBear advocate_edges (route_next_speaker s)
      | NModerator \<Rightarrow> conditional NModerator moderator_edges (route_after_moderator s)
      | NJudge \<Rightarrow> Inr END
      | END \<Rightarrow> Inr END)"

text \<open>
  A participant's turn on state \<open>s\<close>: it raises when the bundle does not render, and
  returns the update \<open>u\<close> otherwise.
\<close>

definition turn :: "node \<Rightarrow> debate_state \<Rightarrow> update \<Rightarrow> graph_error + update" where
  "turn n s u =
     (case format_research_context_error (research_data s) of
        Some e \<Rightarrow> Inl (Turn_failed n e)
      | None \<Rightarrow> Inr u)"

definition node_update ::
  "provider \<Rightarrow> (nat \<Rightarrow> string) \<Rightarrow> node \<Rightarrow> debate_state \<Rightarrow> graph_error + update" where
  "node_update P llm n s =
     (case n of
        NResearch \<Rightarrow> Inr (researcher_call P s)
      | NBull \<Rightarrow> turn NBull s (bull_call s (llm 0))
      | NBear \<Rightarrow> turn NBear s (bear_call s (llm 0))
      | NModerator \<Rightarrow> turn NModerator s (moderator_call s llm)
      | NJudge \<Rightarrow> turn NJudge s (judge_call s (llm 0))
      | END \<Rightarrow> Inr empty_update)"

text \<open>One step of the graph: run the node, merge its output, follow the edge.\<close>

definition graph_step ::
  "provider \<Rightarrow> (nat \<Rightarrow> string) \<Rightarrow> node \<times> debate_state \<Rightarrow> graph_error + node \<times> debate_state" where
  "graph_step P llm cfg =
     (case cfg of (n, s) \<Rightarrow>
        (case node_update P llm n s of
           Inl e \<Rightarrow> Inl e
         | Inr u \<Rightarrow>
             (let s' = apply_update s u
              in case next_node n s' of Inl e \<Rightarrow> Inl e | Inr n' \<Rightarrow> Inr (n', s'))))"

text \<open>
  Where the graph stands after \<open>k\<close> steps from step number \<open>t\<close>, if no step aborts;
  \<open>llm t\<close> holds the oracle's replies during step \<open>t\<close>. Once at \<open>END\<close> the graph stays
  there.
\<close>

fun after_steps ::
  "provider \<Rightarrow> (nat \<Rightarrow> nat \<Rightarrow> string) \<Rightarrow> nat \<Rightarrow> nat \<Rightarrow> node \<times> debate_state
     \<Rightarrow> graph_error + node \<times> debate_state" where
  "after_steps P llm t 0 cfg = Inr cfg"
| "after_steps P llm t (Suc k) cfg =
     (if fst cfg = END then Inr cfg
      else (case graph_step P (llm t) cfg of
              Inl e \<Rightarrow> Inl e
            | Inr cfg' \<Rightarrow> after_steps P llm (Suc t) k cfg'))"

text \<open>
  \<^verbatim>\<open>graph.stream(initial_state)\<close>: the graph runtime steps the graph until it reaches
  \<open>END\<close>, and aborts the run with its recursion error when the graph has not ended
  after the number of steps its recursion limit allows. The limit belongs to the
  runtime, which is outside the repository; the source passes no configuration, so it
  is the runtime's default (25 in its documentation). Here \<open>k\<close> is the number of steps
  the limit still allows.
\<close>

fun run ::
  "provider \<Rightarrow> (nat \<Rightarrow> nat \<Rightarrow> string) \<Rightarrow> nat \<Rightarrow> nat \<Rightarrow> node \<times> debate_state
     \<Rightarrow> graph_error + node \<times> debate_state" where
  "run P llm t 0 cfg = (if fst cfg = END then Inr cfg else Inl Graph_recursion_error)"
| "run P llm t (Suc k) cfg =
     (if fst cfg = END then Inr cfg
      else (case graph_step P (llm t) cfg of
              Inl e \<Rightarrow> Inl e
            | Inr cfg' \<Rightarrow> run P llm (Suc t) k cfg'))"

definition run_debate ::
  "nat \<Rightarrow> provider \<Rightarrow> (nat \<Rightarrow> nat \<Rightarrow> string) \<Rightarrow> string \<Rightarrow> string option \<Rightarrow> int
     \<Rightarrow> graph_error + node \<times> debate_state" where
  "run_debate recursion_limit P llm tick quest rounds =
     run P llm 0 recursion_limit (NResearch, create_initial_state tick quest rounds)"

text \<open>The states a session can be in: the initial ones and those the graph steps to.\<close>

inductive reachable :: "node \<times> debate_state \<Rightarrow> bool" where
  initial: "reachable (NResearch, create_initial_state tick quest rounds)"
| step: "reachable cfg \<Longrightarrow> fst cfg \<noteq> END \<Longrightarrow> graph_step P llm cfg = Inr cfg' \<Longrightarrow> reachable cfg'"

section \<open>A sample session\<close>

text \<open>
  A provider whose earnings-history accessor raises and whose other accessors each
  return one row that renders, and an oracle that answers the moderator's calls at
  step 2 with \<^verbatim>\<open>ACCURACY_SCORE: 0.4\<close> and every other call with the empty text. The
  second provider differs in its insider row, which has no traded shares.
\<close>

definition sample_provider :: provider where
  "sample_provider =
     \<lparr>get_metrics = (\<lambda>t. Inr [(''COMPANY_NAME'', PStr ''Xyz Corp'')]),
      get_earnings_history = (\<lambda>t. Inl ''timeout''),
      get_technical_indicators = (\<lambda>t. Inr [(''RSI_14'', PNum 55)]),
      get_sentiment = (\<lambda>t. Inr [(''OVERALL_SENTIMENT'', PStr ''Bullish'')]),
      get_insider_activity =
        (\<lambda>t. Inr [[(''INSIDER_NAME'', PStr ''A''), (''SHARES_TRADED'', PNum 1000)]]),
      get_institutional_holdings = (\<lambda>t. Inr [[(''HOLDER'', PStr ''B'')]]),
      search_analyst_reports =
        (\<lambda>q t. Inr [[(''FIRM'', PStr ''C''), (''REPORT_CONTENT'', PStr ''Outlook'')]]),
      search_earnings_transcripts = (\<lambda>q t. Inr [[(''QUARTER'', PStr ''Q1'')]]),
      search_sec_filings = (\<lambda>q t. Inr [[(''FILING_TYPE'', PStr ''8-K'')]]),
      analyst_query_log = [],
      search_query_log = []\<rparr>"

definition unrendered_provider :: provider where
  "unrendered_provider =
     sample_provider\<lparr>get_insider_activity := (\<lambda>t. Inr [[(''INSIDER_NAME'', PStr ''A'')]])\<rparr>"

definition sample_llm :: "nat \<Rightarrow> nat \<Rightarrow> string" where
  "sample_llm t k = (if t = 2 then ''ACCURACY_SCORE: 0.4'' else [])"

text \<open>
  The session on ticker XYZ with \<open>rounds\<close> as round limit, observed after \<open>k\<close> steps:
  its state, and the node that runs next.
\<close>

definition session_after :: "nat \<Rightarrow> int \<Rightarrow> graph_error + node \<times> debate_state" where
  "session_after k rounds =
     after_steps sample_provider sample_llm 0 k (NResearch, create_initial_state ''XYZ'' None rounds)"

definition state_after :: "nat \<Rightarrow> int \<Rightarrow> debate_state" where
  "state_after k rounds =
     (case session_after k rounds of
        Inr cfg \<Rightarrow> snd cfg
      | Inl e \<Rightarrow> create_initial_state ''XYZ'' None rounds)"

definition node_after :: "nat \<Rightarrow> int \<Rightarrow> node option" where
  "node_after k rounds =
     (case session_after k rounds of
        Inr cfg \<Rightarrow> Some (fst cfg)
      | Inl e \<Rightarrow> None)"

section \<open>Conditions of the verdict loop\<close>

text \<open>
  A line the verdict loop handles in one of its label branches, and a line that reaches
  its last branch and starts with a dash once surrounding whitespace is removed.
\<close>

definition labelled :: "string \<Rightarrow> bool" where
  "labelled line =
     (contains ''RECOMMENDATION:'' (upper line) \<or> contains ''CONFIDENCE:'' (upper line) \<or>
      contains ''BULL_SCORE:'' (upper line) \<or> contains ''BEAR_SCORE:'' (upper line) \<or>
      contains ''SUMMARY:'' (upper line) \<or> contains ''KEY_FACTORS:'' (upper line) \<or>
      contains ''KEY FACTORS:'' (upper line))"

definition bullet_line :: "string \<Rightarrow> bool" where
  "bullet_line line = (startswith ''-'' (strip line) \<and> \<not> labelled line)"

section \<open>Shared facts\<close>

lemma gather_research_returns: "\<exists>rd out. gather_research P t = Inr (rd, out)"
  by (simp add: gather_research_def Let_def split: prod.splits)

lemma attempt_fst: "fst (attempt r d l) = (case r of Inr v \<Rightarrow> v | Inl e \<Rightarrow> d)"
  by (simp add: attempt_def split: sum.splits)

lemma attempt_snd: "length (snd (attempt r d l)) = (if isl r then 1 else 0)"
  by (simp add: attempt_def split: sum.splits)

lemma gather_research_eq:
  "gather_research P tick =
     Inr (\<lparr>rd_ticker = upper tick,
           company_name = (case get_metrics P (upper tick) of
                             Inr mm \<Rightarrow> dict_get mm ''COMPANY_NAME'' (PStr (upper tick))
                           | Inl e \<Rightarrow> PStr []),
           metrics = fst (attempt (get_metrics P (upper tick)) [] ''Error getting metrics: ''),
           earnings_history = fst (attempt (get_earnings_history P (upper tick)) [] ''Error getting earnings history: ''),
           technical_indicators = fst (attempt (get_technical_indicators P (upper tick)) [] ''Error getting technical indicators: ''),
           sentiment = fst (attempt (get_sentiment P (upper tick)) [] ''Error getting sentiment: ''),
           insider_activity = fst (attempt (get_insider_activity P (upper tick)) [] ''Error getting insider activity: ''),
           institutional_holdings = fst (attempt (get_institutional_holdings P (upper tick)) [] ''Error getting institutional holdings: ''),
           analyst_reports = fst (attempt (search_analyst_reports P (upper tick @ '' outlook growth risks'') (upper tick)) [] ''Error searching analyst reports: ''),
           earnings_transcripts = fst (attempt (search_earnings_transcripts P (upper tick @ '' guidance outlook'') (upper tick)) [] ''Error searching earnings transcripts: ''),
           sec_filings = fst (attempt (search_sec_filings P (upper tick @ '' material events'') (upper tick)) [] ''Error searching SEC filings: '')\<rparr>,
          snd (attempt (get_metrics P (upper tick)) [] ''Error getting metrics: '') @
          snd (attempt (get_earnings_history P (upper tick)) [] ''Error getting earnings history: '') @
          snd (attempt (get_technical_indicators P (upper tick)) [] ''Error getting technical indicators: '') @
          snd (attempt (get_sentiment P (upper tick)) [] ''Error getting sentiment: '') @
          snd (attempt (get_insider_activity P (upper tick)) [] ''Error getting insider activity: '') @
          snd (attempt (get_institutional_holdings P (upper tick)) [] ''Error getting institutional holdings: '') @
          snd (attempt (search_analyst_reports P (upper tick @ '' outlook growth risks'') (upper tick)) [] ''Error searching analyst reports: '') @
          snd (attempt (search_earnings_transcripts P (upper tick @ '' guidance outlook'') (upper tick)) [] ''Error searching earnings transcripts: '') @
          snd (attempt (search_sec_filings P (upper tick @ '' material events'') (upper tick)) [] ''Error searching SEC filings: ''))"
  by (simp add: gather_research_def Let_def split_beta)

lemma verdict_line_key_factors:
  "key_factors (verdict_line v l) =
     (if bullet_line l \<and> length (key_factors v) < 5
      then key_factors v @ [strip_chars ''- '' l] else key_factors v)"
  by (simp add: verdict_line_def bullet_line_def labelled_def Let_def split: option.splits)

lemma verdict_line_risks: "risks (verdict_line v l) = risks v"
  by (simp add: verdict_line_def Let_def split: option.splits)

lemma foldl_verdict_line_risks: "risks (foldl verdict_line v ls) = risks v"
  by (induction ls arbitrary: v) (simp_all add: verdict_line_risks)

lemma foldl_verdict_line_key_factors:
  "length (key_factors v) \<le> 5 \<Longrightarrow>
   key_factors (foldl verdict_line v ls) =
     key_factors v @ take (5 - length (key_factors v)) (map (strip_chars ''- '') (filter bullet_line ls))"
proof (induction ls arbitrary: v)
  case Nil
  then show ?case by simp
next
  case (Cons l ls)
  show ?case
  proof (cases "bullet_line l \<and> length (key_factors v) < 5")
    case True
    then have kf: "key_factors (verdict_line v l) = key_factors v @ [strip_chars ''- '' l]"
      by (simp add: verdict_line_key_factors)
    then have "length (key_factors (verdict_line v l)) \<le> 5"
      using True by simp
    from Cons.IH [OF this] kf True show ?thesis
      by (simp add: take_Cons' Suc_diff_Suc)
  next
    case False
    then have kf: "key_factors (verdict_line v l) = key_factors v"
      by (simp add: verdict_line_key_factors)
    with Cons.prems have "length (key_factors (verdict_line v l)) \<le> 5"
      by simp
    from Cons.IH [OF this] kf False Cons.prems show ?thesis
      by (cases "bullet_line l") auto
  qed
qed

lemmas call_defs = node_update_def turn_def researcher_call_def bull_call_def bear_call_def
  moderator_call_def judge_call_def empty_update_def apply_update_def add_arguments_def

lemmas route_defs = next_node_def conditional_def advocate_edges_def moderator_edges_def
  route_next_speaker_def route_after_moderator_def

lemma graph_step_invariant:
  assumes "graph_step P llm (n, s) = Inr (n', s')" "n \<noteq> END"
    and "(verdict s \<noteq> None) = (current_speaker s = End)" "(n = END) = (current_speaker s = End)"
  shows "(verdict s' \<noteq> None) = (current_speaker s' = End) \<and> (n' = END) = (current_speaker s' = End) \<and>
         (n' = END) = (n = NJudge)"
  using assms gather_research_returns [of P "ticker s"]
  by (cases n) (auto simp add: graph_step_def call_defs route_defs Let_def
      split: if_splits option.splits)

lemma reachable_invariant:
  "reachable cfg \<Longrightarrow>
     (verdict (snd cfg) \<noteq> None) = (current_speaker (snd cfg) = End) \<and>
     (fst cfg = END) = (current_speaker (snd cfg) = End)"
proof (induction rule: reachable.induct)
  case (initial tick quest rounds)
  then show ?case by (simp add: create_initial_state_def)
next
  case (step cfg P llm cfg')
  then show ?case
    using graph_step_invariant [of P llm "fst cfg" "snd cfg" "fst cfg'" "snd cfg'"]
    by simp
qed

lemma run_END: "run P llm t k (END, s) = Inr (END, s)"
  by (cases k) simp_all

lemma after_steps_reachable:
  "reachable cfg \<Longrightarrow> after_steps P llm t k cfg = Inr cfg' \<Longrightarrow> reachable cfg'"
proof (induction k arbitrary: t cfg)
  case 0
  then show ?case by simp
next
  case (Suc k)
  show ?case
  proof (cases "fst cfg = END")
    case True
    with Suc.prems show ?thesis by simp
  next
    case False
    with Suc.prems(2) obtain c1 where c1: "graph_step P (llm t) cfg = Inr c1"
      and r: "after_steps P llm (Suc t) k c1 = Inr cfg'"
      by (auto split: sum.splits)
    from reachable.step [OF Suc.prems(1) False c1] have "reachable c1" .
    from Suc.IH [OF this r] show ?thesis .
  qed
qed

text \<open>
  The run under a recursion limit, read off the first steps of the graph: it ends where
  they end, fails where they fail, and is aborted when they have not reached \<open>END\<close>.
\<close>

lemma run_after_steps:
  "run P llm t k cfg =
     (case after_steps P llm t k cfg of
        Inl e \<Rightarrow> Inl e
      | Inr c \<Rightarrow> if fst c = END then Inr c else Inl Graph_recursion_error)"
proof (induction k arbitrary: t cfg)
  case 0
  then show ?case by simp
next
  case (Suc k)
  then show ?case
    by (cases "fst cfg = END") (simp_all split: sum.splits)
qed

lemma graph_step_no_recursion_error: "graph_step P llm cfg \<noteq> Inl Graph_recursion_error"
  by (cases cfg, cases "fst cfg")
    (auto simp add: graph_step_def call_defs route_defs Let_def
      split: sum.splits option.splits if_splits)

lemma after_steps_no_recursion_error: "after_steps P llm t k cfg \<noteq> Inl Graph_recursion_error"
proof (induction k arbitrary: t cfg)
  case 0
  then show ?case by simp
next
  case (Suc k)
  then show ?case
    using graph_step_no_recursion_error [of P "llm t" cfg]
    by (cases "fst cfg = END") (auto split: sum.splits)
qed

lemma apply_update_arguments:
  "length (arguments (apply_update s u)) =
     length (arguments s) + (case u_arguments u of None \<Rightarrow> 0 | Some a \<Rightarrow> length a)"
  by (simp add: apply_update_def add_arguments_def split: option.splits)

lemma node_update_arguments:
  assumes "node_update P llm n s = Inr u"
  shows "(case u_arguments u of None \<Rightarrow> 0 | Some a \<Rightarrow> length a) \<le> Suc 0"
proof (cases n)
  case NResearch
  with assms show ?thesis
    by (auto simp add: node_update_def researcher_call_def gather_research_eq empty_update_def)
next
  case NBull
  with assms show ?thesis
    by (auto simp add: node_update_def turn_def bull_call_def empty_update_def split: option.splits)
next
  case NBear
  with assms show ?thesis
    by (auto simp add: node_update_def turn_def bear_call_def empty_update_def Let_def
        split: option.splits)
next
  case NModerator
  with assms show ?thesis
    by (auto simp add: node_update_def turn_def moderator_call_def empty_update_def Let_def
        split: option.splits)
next
  case NJudge
  with assms show ?thesis
    by (auto simp add: node_update_def turn_def judge_call_def empty_update_def Let_def
        split: option.splits)
next
  case END
  with assms show ?thesis
    by (auto simp add: node_update_def empty_update_def)
qed

lemma graph_step_arguments:
  assumes "graph_step P llm (n, s) = Inr (n', s')"
  shows "length (arguments s') \<le> Suc (length (arguments s))"
proof -
  from assms obtain u where u: "node_update P llm n s = Inr u" and s': "s' = apply_update s u"
    by (auto simp add: graph_step_def Let_def split: sum.splits)
  from node_update_arguments [OF u] s' show ?thesis
    by (simp add: apply_update_arguments)
qed

lemma after_steps_arguments:
  "after_steps P llm t k cfg = Inr cfg' \<Longrightarrow>
     length (arguments (snd cfg')) \<le> length (arguments (snd cfg)) + k"
proof (induction k arbitrary: t cfg)
  case 0
  then show ?case by simp
next
  case (Suc k)
  show ?case
  proof (cases "fst cfg = END")
    case True
    with Suc.prems show ?thesis by simp
  next
    case False
    with Suc.prems obtain c1 where c1: "graph_step P (llm t) cfg = Inr c1"
      and r: "after_steps P llm (Suc t) k c1 = Inr cfg'"
      by (auto split: sum.splits)
    from graph_step_arguments [of P "llm t" "fst cfg" "snd cfg" "fst c1" "snd c1"] c1
    have "length (arguments (snd c1)) \<le> Suc (length (arguments (snd cfg)))"
      by simp
    with Suc.IH [OF r] show ?thesis
      by simp
  qed
qed

text \<open>
  A bundle that does not render: the insider row of the second provider has no traded
  shares, and the first participant's turn raises.
\<close>

lemma turn_fails_on_unrendered_bundle:
  "run_debate 25 unrendered_provider sample_llm ''XYZ'' None 3 = Inl (Turn_failed NBull ValueError)"
  by code_simp


text \<open>The advocate-against is never the node to run next in a session of the graph.\<close>

lemma graph_step_not_bear:
  "graph_step P llm (n, s) = Inr (n', s') \<Longrightarrow> n \<noteq> NBear \<Longrightarrow> n' \<noteq> NBear"
  using gather_research_returns [of P "ticker s"]
  by (cases n) (auto simp add: graph_step_def call_defs route_defs Let_def
      split: if_splits option.splits)

lemma advocate_against_unreachable: "reachable cfg \<Longrightarrow> fst cfg \<noteq> NBear"
proof (induction rule: reachable.induct)
  case (initial tick quest rounds)
  then show ?case by simp
next
  case (step cfg P llm cfg')
  then show ?case
    using graph_step_not_bear [of P llm "fst cfg" "snd cfg" "fst cfg'" "snd cfg'"]
    by simp
qed

text \<open>
  What the clamp of the advocates and of the arbiter yields: a value between its
  bounds, or NaN, which passes through \<^verbatim>\<open>min(max(x, lo), hi)\<close> unchanged.
\<close>

lemma clamp_between:
  "lo \<le> hi \<Longrightarrow>
   py_min (py_max c (Fin lo)) (Fin hi) = NaN \<and> c = NaN \<or>
   (\<exists>r. py_min (py_max c (Fin lo)) (Fin hi) = Fin r \<and> lo \<le> r \<and> r \<le> hi)"
  by (cases c) (auto simp add: py_min_def py_max_def)

lemma nan_token_passes_clamp:
  "confidence (bull_generate_argument ''CONFIDENCE: nan'') = NaN"
  by code_simp

section \<open>Routing of the advocates\<close>

text \<open>
  C2, as the code has it. The advocate-for turn routes to the moderator whatever the
  round; the advocate-against turn routes to the arbiter when the round index it reads
  from the state has reached the round limit, and to the moderator otherwise.
\<close>

theorem advocate_routing:
  "u_current_speaker (bull_call s r) = Some Moderator \<and>
   u_current_speaker (bear_call s r) =
     Some (if max_rounds s \<le> current_round s then Judge else Moderator)"
  by (simp add: bull_call_def bear_call_def empty_update_def Let_def)

text \<open>
  C2 as stated fails for the advocate-for: in a session with round limit 0 the
  advocate-for runs at step 1 with \<open>round_index \<ge> round_limit\<close>, and routes to the
  moderator, not to the arbiter.
\<close>

theorem advocate_for_ignores_round_limit:
  "node_after 1 0 = Some NBull \<and>
   max_rounds (state_after 1 0) \<le> current_round (state_after 1 0) \<and>
   u_current_speaker (bull_call (state_after 1 0) []) = Some Moderator \<and>
   node_after 2 0 = Some NModerator"
  by code_simp

section \<open>The round index\<close>

text \<open>
  C3, as the code has it. The round index starts at 0; the advocate-against turn adds
  exactly 1 to it, and the turns of the advocate-for, the moderator, the arbiter and
  the research stage leave it as it is.
\<close>

theorem round_index_changes:
  "current_round (create_initial_state t q m) = 0 \<and>
   current_round (apply_update s (bear_call s r)) = current_round s + 1 \<and>
   current_round (apply_update s (bull_call s r)) = current_round s \<and>
   current_round (apply_update s (moderator_call s llm)) = current_round s \<and>
   current_round (apply_update s (judge_call s r)) = current_round s \<and>
   current_round (apply_update s (researcher_call P s)) = current_round s"
  using gather_research_returns [of P "ticker s"]
  by (auto simp add: create_initial_state_def apply_update_def bear_call_def bull_call_def
      moderator_call_def judge_call_def researcher_call_def empty_update_def Let_def)

text \<open>
  C3 as stated fails: the moderator's turn at step 2 of the sample session leaves the
  round index at 0, and an advocate-against turn on the same state raises it to 1.
\<close>

theorem moderator_keeps_round_index:
  "node_after 2 1 = Some NModerator \<and>
   current_round (state_after 2 1) = 0 \<and>
   current_round (apply_update (state_after 2 1) (moderator_call (state_after 2 1) (sample_llm 2))) = 0 \<and>
   current_round (apply_update (state_after 2 1) (bear_call (state_after 2 1) [])) = 1"
  by code_simp

section \<open>The moderator's summary\<close>

text \<open>
  C10. The summary Argument of the moderator has confidence 0.9 for every state and
  every reply of the oracle, and it is the one Argument of the moderator's update: the
  reply is stored as the content and never parsed for a confidence.
\<close>

theorem moderator_confidence_constant:
  "confidence (moderator_generate_argument s response) = Fin (9 / 10) \<and>
   content (moderator_generate_argument s response) = Reply response \<and>
   (\<exists>a. u_arguments (moderator_call s llm) = Some [a] \<and> confidence a = Fin (9 / 10))"
  by (simp add: moderator_generate_argument_def moderator_call_def empty_update_def Let_def)

section \<open>Routing of the moderator\<close>

text \<open>
  C1, at the state the moderator first runs on. After the research stage and the
  opening advocate-for turn of a session with round limit 3, the history holds one
  advocate-for argument and none of the advocate-against, and the round index is below
  the limit. The moderator's routing update names the advocate-for, the graph's edge
  follows it, and the next argument is again the advocate-for's.
\<close>

theorem moderator_routes_to_advocate_for_again:
  "node_after 2 3 = Some NModerator \<and>
   map agent (arguments (state_after 2 3)) = [Bull] \<and>
   current_round (state_after 2 3) < max_rounds (state_after 2 3) \<and>
   u_current_speaker (moderator_call (state_after 2 3) (sample_llm 2)) = Some Bull \<and>
   node_after 3 3 = Some NBull \<and>
   map agent (arguments (state_after 4 3)) = [Bull, Moderator, Bull]"
  by code_simp

section \<open>The fact checks in the session state\<close>

text \<open>
  C6, as the code has it. A moderator turn replaces the state's fact checks by the
  checks of that turn, one for each advocate argument among the last two of the
  history, in their order, so at most two; the turn of every other participant leaves
  the fact checks as they are.
\<close>

theorem fact_checks_replaced:
  "fact_checks (apply_update s (moderator_call s llm)) =
     map (\<lambda>(k, a). fact_check a (llm (Suc k)))
       (enumerate 0 (filter (\<lambda>a. agent a = Bull \<or> agent a = Bear) (last_two (arguments s)))) \<and>
   length (fact_checks (apply_update s (moderator_call s llm))) \<le> 2 \<and>
   fact_checks (apply_update s (bull_call s r)) = fact_checks s \<and>
   fact_checks (apply_update s (bear_call s r)) = fact_checks s \<and>
   fact_checks (apply_update s (judge_call s r)) = fact_checks s \<and>
   fact_checks (apply_update s (researcher_call P s)) = fact_checks s"
proof -
  have "length (filter (\<lambda>a. agent a = Bull \<or> agent a = Bear) (last_two (arguments s))) \<le> 2"
    by (rule order_trans [OF length_filter_le]) (simp add: last_two_def)
  then show ?thesis
    using gather_research_returns [of P "ticker s"]
    by (auto simp add: apply_update_def bear_call_def bull_call_def moderator_call_def
        judge_call_def researcher_call_def empty_update_def Let_def)
qed

text \<open>
  C6 as stated fails: the fact check merged by the moderator at step 2 of the sample
  session is in the state after step 3 and no longer there after the moderator's next
  turn, at step 4.
\<close>

theorem earlier_fact_checks_dropped:
  "node_after 2 1 = Some NModerator \<and>
   fact_checks (state_after 3 1) =
     [\<lparr>agent_checked = Bull, accuracy_score = Fin (2 / 5), feedback = ''ACCURACY_SCORE: 0.4''\<rparr>] \<and>
   node_after 4 1 = Some NModerator \<and>
   fact_checks (state_after 5 1) =
     [\<lparr>agent_checked = Bull, accuracy_score = Fin (7 / 10), feedback = []\<rparr>]"
  by code_simp

section \<open>The research stage\<close>

text \<open>
  C5, as the code has it. The research stage returns for every provider. A category
  whose accessor raises keeps its empty default and every other category holds what
  its accessor returned; each failure prints one line, and the stage's update has no
  \<open>errors\<close> key, so the errors of the session state stay as they were.
\<close>

theorem research_failures_isolated:
  "\<exists>rd printed.
     gather_research P (ticker s) = Inr (rd, printed) \<and>
     u_research_data (researcher_call P s) = Some rd \<and>
     u_current_speaker (researcher_call P s) = Some Bull \<and>
     u_errors (researcher_call P s) = None \<and>
     errors (apply_update s (researcher_call P s)) = errors s \<and>
     metrics rd = (case get_metrics P (upper (ticker s)) of Inr v \<Rightarrow> v | Inl e \<Rightarrow> []) \<and>
     earnings_history rd = (case get_earnings_history P (upper (ticker s)) of Inr v \<Rightarrow> v | Inl e \<Rightarrow> []) \<and>
     technical_indicators rd = (case get_technical_indicators P (upper (ticker s)) of Inr v \<Rightarrow> v | Inl e \<Rightarrow> []) \<and>
     sentiment rd = (case get_sentiment P (upper (ticker s)) of Inr v \<Rightarrow> v | Inl e \<Rightarrow> []) \<and>
     insider_activity rd = (case get_insider_activity P (upper (ticker s)) of Inr v \<Rightarrow> v | Inl e \<Rightarrow> []) \<and>
     institutional_holdings rd =
       (case get_institutional_holdings P (upper (ticker s)) of Inr v \<Rightarrow> v | Inl e \<Rightarrow> []) \<and>
     analyst_reports rd =
       (case search_analyst_reports P (upper (ticker s) @ '' outlook growth risks'') (upper (ticker s)) of
          Inr v \<Rightarrow> v | Inl e \<Rightarrow> []) \<and>
     earnings_transcripts rd =
       (case search_earnings_transcripts P (upper (ticker s) @ '' guidance outlook'') (upper (ticker s)) of
          Inr v \<Rightarrow> v | Inl e \<Rightarrow> []) \<and>
     sec_filings rd =
       (case search_sec_filings P (upper (ticker s) @ '' material events'') (upper (ticker s)) of
          Inr v \<Rightarrow> v | Inl e \<Rightarrow> []) \<and>
     length printed =
       length (filter id
         [isl (get_metrics P (upper (ticker s))),
          isl (get_earnings_history P (upper (ticker s))),
          isl (get_technical_indicators P (upper (ticker s))),
          isl (get_sentiment P (upper (ticker s))),
          isl (get_insider_activity P (upper (ticker s))),
          isl (get_institutional_holdings P (upper (ticker s))),
          isl (search_analyst_reports P (upper (ticker s) @ '' outlook growth risks'') (upper (ticker s))),
          isl (search_earnings_transcripts P (upper (ticker s) @ '' guidance outlook'') (upper (ticker s))),
          isl (search_sec_filings P (upper (ticker s) @ '' material events'') (upper (ticker s)))])"
  by (simp add: gather_research_eq researcher_call_def apply_update_def empty_update_def
      attempt_fst attempt_snd)

text \<open>
  C5 as stated fails: with the sample provider, whose earnings-history accessor is the
  only one that raises, the earnings field is empty and nothing is added to the errors.
\<close>

theorem research_failure_not_recorded:
  "isl (get_earnings_history sample_provider ''XYZ'') \<and>
   research_data (state_after 1 3) =
     Some \<lparr>rd_ticker = ''XYZ'', company_name = PStr ''Xyz Corp'',
           metrics = [(''COMPANY_NAME'', PStr ''Xyz Corp'')],
           earnings_history = [],
           technical_indicators = [(''RSI_14'', PNum 55)],
           sentiment = [(''OVERALL_SENTIMENT'', PStr ''Bullish'')],
           insider_activity = [[(''INSIDER_NAME'', PStr ''A''), (''SHARES_TRADED'', PNum 1000)]],
           institutional_holdings = [[(''HOLDER'', PStr ''B'')]],
           analyst_reports = [[(''FIRM'', PStr ''C''), (''REPORT_CONTENT'', PStr ''Outlook'')]],
           earnings_transcripts = [[(''QUARTER'', PStr ''Q1'')]],
           sec_filings = [[(''FILING_TYPE'', PStr ''8-K'')]]\<rparr> \<and>
   u_errors (researcher_call sample_provider (create_initial_state ''XYZ'' None 3)) = None \<and>
   errors (state_after 1 3) = []"
  by code_simp

section \<open>Clamping of parsed scores\<close>

text \<open>
  C7, at the reply \<^verbatim>\<open>ACCURACY_SCORE: 1.8\<close>. The fact check stores the accuracy 1.8 as
  parsed, and -0.3 for a negative token, while the advocates and the arbiter clamp the
  same tokens to 1, 0 and 100.
\<close>

theorem fact_check_accuracy_unclamped:
  "accuracy_score (fact_check (bull_generate_argument []) ''ACCURACY_SCORE: 1.8'') = Fin (9 / 5) \<and>
   accuracy_score (fact_check (bull_generate_argument []) ''ACCURACY_SCORE: -0.3'') = Fin (- (3 / 10)) \<and>
   confidence (bull_generate_argument ''CONFIDENCE: 1.8'') = Fin 1 \<and>
   confidence (bear_generate_argument ''CONFIDENCE: -0.3'') = Fin 0 \<and>
   verdict_confidence (generate_verdict ''CONFIDENCE: 1.8'') = Fin 1 \<and>
   bull_score (generate_verdict ''BULL_SCORE: 180'') = Fin 100"
  by code_simp

section \<open>Key factors and risks of the verdict\<close>

text \<open>
  C9, as the code has it. The key factors are the lines that start with a dash after
  leading whitespace and hold none of the verdict's labels, each without its
  surrounding dashes and spaces, cut after the fifth; when there is no such line they
  are one placeholder entry. The risks are never empty and never more than three, and
  when there is no such line they are two placeholder entries.
\<close>

theorem verdict_lists:
  "key_factors (generate_verdict response) =
     (if filter bullet_line (split_on newline response) = []
      then [''See detailed analysis in summary'']
      else take 5 (map (strip_chars ''- '') (filter bullet_line (split_on newline response)))) \<and>
   length (key_factors (generate_verdict response)) \<le> 5 \<and>
   risks (generate_verdict response) \<noteq> [] \<and>
   length (risks (generate_verdict response)) \<le> 3 \<and>
   (filter bullet_line (split_on newline response) = [] \<longrightarrow>
      risks (generate_verdict response) = [''Market volatility'', ''Execution risk''])"
  by (simp add: generate_verdict_def Let_def foldl_verdict_line_key_factors foldl_verdict_line_risks)

theorem verdict_lists_witness:
  "filter bullet_line (split_on newline ''HOLD'') = [] \<and>
   key_factors (generate_verdict ''HOLD'') = [''See detailed analysis in summary''] \<and>
   risks (generate_verdict ''HOLD'') = [''Market volatility'', ''Execution risk'']"
proof -
  have h: "filter bullet_line (split_on newline ''HOLD'') = []"
    by code_simp
  with verdict_lists [of "''HOLD''"] show ?thesis
    by simp
qed

text \<open>
  C9 as stated fails: a reply of one bullet line yields that line as key factor and
  the two placeholders as risks, and the empty reply yields two risk entries, not one.
\<close>

theorem risks_are_never_collected:
  "filter bullet_line (split_on newline ''- margin pressure'') = [''- margin pressure''] \<and>
   key_factors (generate_verdict ''- margin pressure'') = [''margin pressure''] \<and>
   risks (generate_verdict ''- margin pressure'') = [''Market volatility'', ''Execution risk''] \<and>
   length (risks (generate_verdict [])) = 2"
  by code_simp

section \<open>The number of steps of a session\<close>

text \<open>
  C4, as the code has it. The number of steps of a run is capped by the recursion limit
  of the graph runtime, which is no function of the round limit. For every provider,
  every oracle and every round limit, the outcome of the run is read off its first
  \<open>limit\<close> steps: the run ends where they reach \<open>END\<close>, it fails with the error of the
  turn that failed among them, and it is aborted with the runtime's recursion error
  when they have passed without reaching \<open>END\<close>. The recursion error comes from the
  limit alone, never from a step; and a run that returns a state has ended, with a
  verdict and at most \<open>limit\<close> arguments recorded.
\<close>

theorem run_capped_by_recursion_limit:
  "run_debate limit P llm tick quest rounds =
     (case after_steps P llm 0 limit (NResearch, create_initial_state tick quest rounds) of
        Inl e \<Rightarrow> Inl e
      | Inr c \<Rightarrow> if fst c = END then Inr c else Inl Graph_recursion_error) \<and>
   after_steps P llm 0 k (NResearch, create_initial_state tick quest rounds)
     \<noteq> Inl Graph_recursion_error \<and>
   (\<forall>n s. run_debate limit P llm tick quest rounds = Inr (n, s) \<longrightarrow>
      n = END \<and> verdict s \<noteq> None \<and> length (arguments s) \<le> limit)"
proof -
  let ?c0 = "(NResearch, create_initial_state tick quest rounds)"
  have eq: "run_debate limit P llm tick quest rounds =
     (case after_steps P llm 0 limit ?c0 of
        Inl e \<Rightarrow> Inl e
      | Inr c \<Rightarrow> if fst c = END then Inr c else Inl Graph_recursion_error)"
    by (simp add: run_debate_def run_after_steps)
  have ended: "n = END \<and> verdict s \<noteq> None \<and> length (arguments s) \<le> limit"
    if r: "run_debate limit P llm tick quest rounds = Inr (n, s)" for n s
  proof -
    from r eq have a: "after_steps P llm 0 limit ?c0 = Inr (n, s)" and n: "n = END"
      by (auto split: sum.splits if_splits)
    from after_steps_arguments [OF a] have len: "length (arguments s) \<le> limit"
      by (simp add: create_initial_state_def)
    from after_steps_reachable [OF reachable.initial a] have "reachable (n, s)" .
    from reachable_invariant [OF this] n have "verdict s \<noteq> None"
      by simp
    with n len show ?thesis
      by simp
  qed
  from eq after_steps_no_recursion_error [of P llm 0 k ?c0] ended show ?thesis
    by blast
qed

theorem run_capped_by_recursion_limit_witness:
  "run_debate 25 sample_provider sample_llm ''XYZ'' None 0 = Inr (END, state_after 4 0) \<and>
   verdict (state_after 4 0) \<noteq> None \<and>
   length (arguments (state_after 4 0)) = 3 \<and>
   length (arguments (state_after 4 0)) \<le> 25"
proof -
  have r: "run_debate 25 sample_provider sample_llm ''XYZ'' None 0 = Inr (END, state_after 4 0)"
    by code_simp
  have l: "length (arguments (state_after 4 0)) = 3"
    by code_simp
  from run_capped_by_recursion_limit [of 25 sample_provider sample_llm "''XYZ''" None 0] r l
  show ?thesis
    by simp
qed

text \<open>
  C4 as stated fails: no ceiling is derived from the round limit. With round limit 1
  the sample session is still taking turns after 6 steps, the ceiling
  \<open>2 * round_limit + 4\<close>, and after 24; under the runtime's default limit of 25 it is
  aborted at the same step for round limit 1 and for round limit 3.
\<close>

theorem steps_not_bounded_by_round_limit:
  "node_after 6 1 = Some NModerator \<and>
   node_after 24 1 = Some NModerator \<and>
   length (arguments (state_after 24 1)) = 23 \<and>
   node_after 24 3 = Some NModerator \<and>
   run_debate 25 sample_provider sample_llm ''XYZ'' None 1 = Inl Graph_recursion_error \<and>
   run_debate 25 sample_provider sample_llm ''XYZ'' None 3 = Inl Graph_recursion_error"
  by code_simp


section \<open>Verdict and terminal state\<close>

text \<open>
  C8. In every state a session can reach, the verdict is set exactly when the routing
  cursor is the terminal one, which is exactly when the graph has ended. The arbiter's
  update sets the verdict and the terminal cursor together; a step that reaches the
  terminal cursor is the arbiter's; and a run that has ended stays in its state.
\<close>

theorem verdict_iff_terminal:
  assumes "reachable (n, s)"
  shows "(verdict s \<noteq> None) = (current_speaker s = End) \<and>
         (n = END) = (current_speaker s = End) \<and>
         (\<forall>r. u_verdict (judge_call s r) \<noteq> None \<and> u_current_speaker (judge_call s r) = Some End) \<and>
         (\<forall>P llm n' s'. n \<noteq> END \<and> graph_step P llm (n, s) = Inr (n', s') \<and> current_speaker s' = End
            \<longrightarrow> n = NJudge \<and> n' = END \<and> verdict s' \<noteq> None) \<and>
         (\<forall>P llm t k. n = END \<longrightarrow> run P llm t k (n, s) = Inr (n, s))"
proof -
  from reachable_invariant [OF assms]
  have inv: "(verdict s \<noteq> None) = (current_speaker s = End)" "(n = END) = (current_speaker s = End)"
    by simp_all
  have judge: "\<forall>r. u_verdict (judge_call s r) \<noteq> None \<and> u_current_speaker (judge_call s r) = Some End"
    by (simp add: judge_call_def empty_update_def Let_def)
  have only: "n = NJudge \<and> n' = END \<and> verdict s' \<noteq> None"
    if "n \<noteq> END" "graph_step P llm (n, s) = Inr (n', s')" "current_speaker s' = End"
    for P llm n' s'
    using graph_step_invariant [OF that(2) that(1) inv] that(3) by auto
  have absorbing: "run P llm t k (n, s) = Inr (n, s)" if "n = END" for P llm t k
    using that by (simp add: run_END)
  from inv judge only absorbing show ?thesis
    by blast
qed

theorem verdict_iff_terminal_witness:
  "reachable (NJudge, state_after 3 0) \<and>
   verdict (state_after 3 0) = None \<and>
   graph_step sample_provider (sample_llm 3) (NJudge, state_after 3 0) = Inr (END, state_after 4 0) \<and>
   current_speaker (state_after 4 0) = End \<and>
   verdict (state_after 4 0) \<noteq> None \<and>
   reachable (END, state_after 4 0) \<and>
   run sample_provider sample_llm 4 9 (END, state_after 4 0) = Inr (END, state_after 4 0)"
proof -
  have r3: "session_after 3 0 = Inr (NJudge, state_after 3 0)"
    by code_simp
  have r4: "session_after 4 0 = Inr (END, state_after 4 0)"
    by code_simp
  have st: "graph_step sample_provider (sample_llm 3) (NJudge, state_after 3 0) = Inr (END, state_after 4 0)"
    by code_simp
  have sp: "current_speaker (state_after 4 0) = End"
    by code_simp
  have j: "reachable (NJudge, state_after 3 0)"
    using after_steps_reachable [OF reachable.initial r3 [unfolded session_after_def]] .
  have e: "reachable (END, state_after 4 0)"
    using after_steps_reachable [OF reachable.initial r4 [unfolded session_after_def]] .
  from verdict_iff_terminal [OF j] verdict_iff_terminal [OF e] st sp j e show ?thesis
    by auto
qed

end
